theory Spec2Isabelle
  imports Complex_Main "HOL-Library.Sublist"
begin

section \<open>The wire protocol (composables/useWebSocket.ts)\<close>

text \<open>
  The client is a Vue component (components/RecordingInterface.vue) over two composables,
  useAudioRecorder.ts (the capture pipeline) and useWebSocket.ts (the transport). This
  theory embeds the three of them: every ref and closure variable is a field of one
  record, every handler a function from state to state, every outcome the browser decides
  (the device grants the microphone or not, the socket opens or not) an argument of the
  handler it feeds.

  A JavaScript number is modelled as the real number it denotes, and every operation
  that rounds is followed by its rounding: \<open>float64\<close> after a division or a product,
  \<open>float32\<close> at a store into a \<open>Float32Array\<close>. Comparison, \<open>Math.abs\<close> and
  \<open>Math.max\<close> are exact. NaN and the infinities are not modelled.
\<close>

datatype message_type =
  T_transcription | T_audio_data | T_error | T_status
| T_start_recording | T_stop_recording | T_audio_segment | T_play_audio

text \<open>
  \<open>TranscriptionSegment\<close>; the fields \<open>text\<close>, \<open>start\<close> and \<open>end\<close> carry the prefix
  \<open>seg_\<close> here.
\<close>

record TranscriptionSegment =
  seg_text :: string
  speaker :: string
  seg_start :: real
  seg_end :: real
  absolute_start :: real
  absolute_end :: real

text \<open>
  \<open>WebSocketMessage\<close>: every field but \<open>type\<close> is optional. The fields carry the prefix
  \<open>m_\<close>.
\<close>

record WebSocketMessage =
  m_type :: message_type
  m_text :: "string option"
  m_timestamp :: "real option"
  m_duration :: "real option"
  m_segments :: "TranscriptionSegment list option"
  m_session_id :: "string option"
  m_audio :: "string option"
  m_start_time :: "real option"
  m_end_time :: "real option"
  m_error :: "string option"
  m_status :: "string option"

definition message :: "message_type \<Rightarrow> WebSocketMessage" where
  "message t = \<lparr> m_type = t, m_text = None, m_timestamp = None, m_duration = None,
     m_segments = None, m_session_id = None, m_audio = None, m_start_time = None,
     m_end_time = None, m_error = None, m_status = None \<rparr>"

text \<open>The \<open>readyState\<close> of a WebSocket.\<close>

datatype readyState = CONNECTING | OPEN | CLOSING | CLOSED

text \<open>
  A value a \<open>catch\<close> clause receives: an \<open>Error\<close> with its message, or any other value
  with the string \<open>String(err)\<close> gives for it.
\<close>

datatype thrown = ErrorObject string | OtherValue string

section \<open>The state of the component\<close>

text \<open>
  A segment object of the transcript: its identity (\<open>oid\<close>, the address \<open>===\<close> compares)
  and its fields, which nothing mutates after the object is created.
\<close>

record segment_object =
  oid :: nat
  seg :: TranscriptionSegment

text \<open>
  \<open>TranscriptionWithSession\<close>, an entry of \<open>transcriptions\<close>: \<open>text\<close> is \<open>t_text\<close>
  here, and the field \<open>type\<close>, always \<open>transcription\<close>, is left out.
\<close>

record TranscriptionWithSession =
  t_text :: string
  timestamp :: int
  duration :: real
  segments :: "segment_object list"
  session_id :: string

text \<open>The \<open>audio\<close> element behind the template ref \<open>audioPlayer\<close>.\<close>

record audio_element =
  paused :: bool
  currentTime :: real
  src :: string

text \<open>The object the capture pipeline hands to the callback.\<close>

record audio_chunk =
  chunk_type :: string
  chunk_data :: string
  sampleRate :: nat

text \<open>
  The state: the closure variables and refs of \<open>useAudioRecorder\<close> (\<open>error\<close> is
  \<open>recorderError\<close>, the name the component gives it), those of \<open>useWebSocket\<close> (\<open>error\<close>
  is \<open>wsError\<close>; \<open>sent\<close> lists what \<open>ws.send\<close> was given, oldest first), and the refs
  of the component. \<open>audioContext\<close> holds the context's sample rate, \<open>onAudioData\<close> says
  whether a callback is set, \<open>next_oid\<close> is the address of the next object created and
  \<open>revoked\<close> lists the object URLs released.
\<close>

record state =
  isRecording :: bool
  recorderError :: "string option"
  audioContext :: "nat option"
  processor :: bool
  audioStream :: bool
  onAudioData :: bool
  audioBuffer :: "real list option"
  bufferPosition :: nat
  isConnected :: bool
  lastMessage :: "WebSocketMessage option"
  wsError :: "string option"
  ws :: "readyState option"
  sent :: "WebSocketMessage list"
  transcriptions :: "TranscriptionWithSession list"
  error :: "string option"
  isRecordingSessionActive :: bool
  audioPlayer :: "audio_element option"
  currentPlayingSegment :: "segment_object option"
  next_oid :: nat
  revoked :: "string list"

text \<open>The component right after \<open>setup\<close>: every ref at its initial value.\<close>

definition setup_state :: state where
  "setup_state = \<lparr> isRecording = False, recorderError = None, audioContext = None,
     processor = False, audioStream = False, onAudioData = False, audioBuffer = None,
     bufferPosition = 0, isConnected = False, lastMessage = None, wsError = None,
     ws = None, sent = [], transcriptions = [], error = None,
     isRecordingSessionActive = False, audioPlayer = None, currentPlayingSegment = None,
     next_oid = 0, revoked = [] \<rparr>"

text \<open>
  \<open>onMounted\<close>: the audio callback is set and the template ref is bound to the
  \<open>audio\<close> element.
\<close>

definition mounted :: "state \<Rightarrow> state" where
  "mounted s = s\<lparr> onAudioData := True,
     audioPlayer := Some \<lparr> paused = True, currentTime = 0, src = [] \<rparr> \<rparr>"

section \<open>Session transport (composables/useWebSocket.ts)\<close>

definition sendMessage :: "WebSocketMessage \<Rightarrow> state \<Rightarrow> state" where
  "sendMessage msg s =
     (if ws s \<noteq> Some OPEN then s\<lparr> wsError := Some ''WebSocket is not connected'' \<rparr>
      else s\<lparr> sent := sent s @ [msg] \<rparr>)"

text \<open>
  \<open>connect\<close>: the promise settles when the socket opens, when it reports an error, or
  when its constructor throws. A socket that fails to connect is closed when \<open>onerror\<close>
  runs; its \<open>onclose\<close> is an event of its own.
\<close>

datatype connect_outcome = ConnectOpens | ConnectErrors | ConstructorThrows thrown

fun connect :: "connect_outcome \<Rightarrow> state \<Rightarrow> (thrown \<times> state) + state" where
  "connect ConnectOpens s =
     Inr (s\<lparr> ws := Some OPEN, isConnected := True, wsError := None \<rparr>)"
| "connect ConnectErrors s =
     Inl (ErrorObject ''WebSocket connection error'',
          s\<lparr> ws := Some CLOSED, wsError := Some ''WebSocket connection error'' \<rparr>)"
| "connect (ConstructorThrows e) s =
     Inl (e, s\<lparr> wsError := Some ''Failed to connect to WebSocket'' \<rparr>)"

definition ws_onclose :: "state \<Rightarrow> state" where
  "ws_onclose s = s\<lparr> isConnected := False, ws := None \<rparr>"

definition ws_onerror :: "state \<Rightarrow> state" where
  "ws_onerror s = s\<lparr> wsError := Some ''WebSocket connection error'' \<rparr>"

text \<open>\<open>ws.onmessage\<close>: the data parses as a message, or \<open>JSON.parse\<close> throws.\<close>

definition ws_onmessage :: "WebSocketMessage option \<Rightarrow> state \<Rightarrow> state" where
  "ws_onmessage parsed s =
     (case parsed of
        Some msg \<Rightarrow> s\<lparr> lastMessage := Some msg \<rparr>
      | None \<Rightarrow> s\<lparr> wsError := Some ''Invalid message format'' \<rparr>)"

text \<open>\<open>startRecording\<close> and \<open>stopRecording\<close> of \<open>useWebSocket\<close>, under the component's names.\<close>

definition startWebSocketRecording ::
    "connect_outcome \<Rightarrow> state \<Rightarrow> (thrown \<times> state) + state" where
  "startWebSocketRecording c s =
     (let start = sendMessage ((message T_status)\<lparr> m_status := Some ''start_recording'' \<rparr>)
      in if \<not> isConnected s
         then (case connect c s of Inl e \<Rightarrow> Inl e | Inr s' \<Rightarrow> Inr (start s'))
         else Inr (start s))"

definition stopWebSocketRecording :: "state \<Rightarrow> state" where
  "stopWebSocketRecording s =
     (if isConnected s
      then sendMessage ((message T_status)\<lparr> m_status := Some ''stop_recording'' \<rparr>) s
      else s)"

section \<open>Floating-point arithmetic\<close>

text \<open>
  Rounding to the nearest value that has \<open>p\<close> significant bits and is a multiple of
  \<open>2 powi emin\<close>, a tie going to the even one: the rounding of IEEE 754 binary formats
  below their overflow threshold. \<open>binade x\<close> is the exponent of the power of two at or
  below \<open>\<bar>x\<bar>\<close>.
\<close>

definition round_half_even :: "real \<Rightarrow> int" where
  "round_half_even x =
     (let n = \<lfloor>x\<rfloor> in
      if x - of_int n < 1 / 2 then n
      else if 1 / 2 < x - of_int n then n + 1
      else if even n then n else n + 1)"

definition binade :: "real \<Rightarrow> int" where
  "binade x = (if x = 0 then 0 else \<lfloor>log 2 \<bar>x\<bar>\<rfloor>)"

definition ieee_round :: "nat \<Rightarrow> int \<Rightarrow> real \<Rightarrow> real" where
  "ieee_round p emin x =
     (if x = 0 then 0
      else let e = max (binade x - int p + 1) emin
           in of_int (round_half_even (x / 2 powi e)) * 2 powi e)"

text \<open>A double has 53 significant bits and a single 24; their least subnormals are
  \<open>2 powi - 1074\<close> and \<open>2 powi - 149\<close>.\<close>

definition float64 :: "real \<Rightarrow> real" where
  "float64 = ieee_round 53 (- 1074)"

definition float32 :: "real \<Rightarrow> real" where
  "float32 = ieee_round 24 (- 149)"

section \<open>Audio capture pipeline (composables/useAudioRecorder.ts)\<close>

definition BUFFER_SIZE :: nat where
  "BUFFER_SIZE = 8192"

text \<open>
  \<open>MIN_AMPLITUDE = 0.01\<close>: the double nearest to one hundredth, which is
  \<open>5764607523034235 / 2^59\<close>, a little above it.
\<close>

definition MIN_AMPLITUDE :: real where
  "MIN_AMPLITUDE = 5764607523034235 / 2 ^ 59"

definition cleanup :: "state \<Rightarrow> state" where
  "cleanup s = s\<lparr> processor := False, audioContext := None, audioStream := False,
     audioBuffer := None, isRecording := False \<rparr>"

text \<open>
  \<open>startRecording\<close> of \<open>useAudioRecorder\<close>: the device and the audio graph are acquired,
  or one of the steps throws. \<open>bufferPosition\<close> is a variable of the closure the new
  processor's handler keeps.
\<close>

datatype arm_outcome = ArmSucceeds | ArmThrows thrown

definition error_message :: "thrown \<Rightarrow> string \<Rightarrow> string" where
  "error_message e fallback = (case e of ErrorObject m \<Rightarrow> m | OtherValue _ \<Rightarrow> fallback)"

fun startAudioRecording :: "arm_outcome \<Rightarrow> state \<Rightarrow> (thrown \<times> state) + state" where
  "startAudioRecording ArmSucceeds s =
     Inr ((cleanup s)\<lparr> audioStream := True, audioContext := Some 48000, processor := True,
            audioBuffer := Some (replicate BUFFER_SIZE 0), bufferPosition := 0,
            isRecording := True, recorderError := None \<rparr>)"
| "startAudioRecording (ArmThrows e) s =
     Inl (e, cleanup ((cleanup s)\<lparr>
            recorderError := Some (error_message e ''Failed to start recording'') \<rparr>))"

definition stopAudioRecording :: "state \<Rightarrow> state" where
  "stopAudioRecording s = cleanup s"

text \<open>The largest absolute sample of a window, as the first loop computes it.\<close>

definition maxAmplitude :: "real list \<Rightarrow> real" where
  "maxAmplitude inputData = foldl (\<lambda>m x. max m \<bar>x\<bar>) 0 inputData"

text \<open>
  The second loop: every sample times \<open>scale\<close>, a double, is stored at
  \<open>bufferPosition++\<close> of the \<open>Float32Array\<close>, which rounds it to a single. A store past
  the end of a typed array does nothing, as \<open>list_update\<close> past the end of a list.
\<close>

definition store_normalized :: "real \<Rightarrow> real list \<Rightarrow> real list \<times> nat \<Rightarrow> real list \<times> nat" where
  "store_normalized scale inputData start =
     foldl (\<lambda>(buf, pos) x. (buf[pos := float32 (float64 (x * scale))], Suc pos))
       start inputData"

text \<open>Float to 16-bit sample: \<open>Math.round\<close> rounds a half up, as \<open>round\<close> does.\<close>

definition to_int16 :: "real \<Rightarrow> int" where
  "to_int16 x = max (- 32768) (min 32767 (round (float64 (x * 32768))))"

text \<open>
  The bytes of an \<open>Int16Array\<close>, low byte first, and \<open>btoa\<close> of the string whose
  characters are those bytes.
\<close>

definition int16_bytes :: "int \<Rightarrow> nat list" where
  "int16_bytes v = (let u = nat (v mod 65536) in [u mod 256, u div 256])"

definition base64_char :: "nat \<Rightarrow> char" where
  "base64_char n =
     (''ABCDEFGHIJKLMNOPQRSTUVWXYZabcdefghijklmnopqrstuvwxyz0123456789+/'') ! n"

fun btoa :: "nat list \<Rightarrow> string" where
  "btoa (a # b # c # bytes) =
     base64_char (a div 4) # base64_char ((a mod 4) * 16 + b div 16)
     # base64_char ((b mod 16) * 4 + c div 64) # base64_char (c mod 64) # btoa bytes"
| "btoa [a, b] =
     [base64_char (a div 4), base64_char ((a mod 4) * 16 + b div 16),
      base64_char ((b mod 16) * 4), CHR ''='']"
| "btoa [a] = [base64_char (a div 4), base64_char ((a mod 4) * 16), CHR ''='', CHR ''='']"
| "btoa [] = []"

definition encode_chunk :: "real list \<Rightarrow> string" where
  "encode_chunk buf = btoa (concat (map (int16_bytes \<circ> to_int16) (take BUFFER_SIZE buf)))"

text \<open>
  \<open>processor.onaudioprocess\<close> on one window of samples. \<open>cb\<close> is the function
  \<open>setAudioDataCallback\<close> stored: it runs on the state as it is when the frame is full,
  before the buffer is reset.
\<close>

definition onaudioprocess ::
    "(audio_chunk \<Rightarrow> state \<Rightarrow> state) \<Rightarrow> real list \<Rightarrow> state \<Rightarrow> state" where
  "onaudioprocess cb inputData s =
     (case audioBuffer s of
        None \<Rightarrow> s
      | Some buf \<Rightarrow>
          if \<not> onAudioData s then s
          else if maxAmplitude inputData > MIN_AMPLITUDE then
            (let scale = (if maxAmplitude inputData > 0
                          then float64 (1 / maxAmplitude inputData) else 1);
                 (buf', pos') = store_normalized scale inputData (buf, bufferPosition s);
                 s1 = s\<lparr> audioBuffer := Some buf', bufferPosition := pos' \<rparr>
             in if pos' \<ge> BUFFER_SIZE then
                  (cb \<lparr> chunk_type = ''chunk'', chunk_data = encode_chunk buf',
                        sampleRate = (case audioContext s1 of
                                        None \<Rightarrow> 48000
                                      | Some r \<Rightarrow> if r = 0 then 48000 else r) \<rparr> s1)
                  \<lparr> bufferPosition := 0, audioBuffer := Some (replicate BUFFER_SIZE 0) \<rparr>
                else s1)
          else s)"

section \<open>The component (components/RecordingInterface.vue)\<close>

text \<open>\<open>a || b\<close> on two values of type \<open>string | null\<close>: \<open>null\<close> and the empty string are falsy.\<close>

definition truthy :: "string option \<Rightarrow> bool" where
  "truthy a = (case a of Some (c # cs) \<Rightarrow> True | _ \<Rightarrow> False)"

definition or_else :: "string option \<Rightarrow> string option \<Rightarrow> string option" where
  "or_else a b = (if truthy a then a else b)"

text \<open>The watcher of \<open>[recorderError, wsError]\<close>.\<close>

definition errors_watcher :: "state \<Rightarrow> state" where
  "errors_watcher s = s\<lparr> error := or_else (recorderError s) (wsError s) \<rparr>"

text \<open>
  \<open>toggleRecording\<close>. \<open>toggle_failed\<close> is its \<open>catch\<close> clause. The awaits of the start
  sequence (the connection, the 100 ms delay, the device) are one step here: no other
  handler runs between them.
\<close>

definition toggle_failed :: "thrown \<Rightarrow> state \<Rightarrow> state" where
  "toggle_failed err s =
     (stopWebSocketRecording (stopAudioRecording
        (s\<lparr> error := Some (error_message err ''Failed to toggle recording'') \<rparr>)))
     \<lparr> isRecordingSessionActive := False \<rparr>"

definition toggleRecording :: "connect_outcome \<Rightarrow> arm_outcome \<Rightarrow> state \<Rightarrow> state" where
  "toggleRecording c a s =
     (if isRecording s then
        (stopWebSocketRecording (stopAudioRecording s))\<lparr> isRecordingSessionActive := False \<rparr>
      else
        (case startWebSocketRecording c s of
           Inl (err, s1) \<Rightarrow> toggle_failed err s1
         | Inr s1 \<Rightarrow>
             (case startAudioRecording a (sendMessage (message T_start_recording) s1) of
                Inl (err, s2) \<Rightarrow> toggle_failed err s2
              | Inr s2 \<Rightarrow> s2\<lparr> isRecordingSessionActive := True \<rparr>)))"

text \<open>The callback \<open>onMounted\<close> gives to \<open>setAudioDataCallback\<close>.\<close>

definition audioDataCallback :: "audio_chunk \<Rightarrow> state \<Rightarrow> state" where
  "audioDataCallback d s =
     (if isConnected s \<and> isRecording s \<and> isRecordingSessionActive s \<and> chunk_type d = ''chunk''
      then sendMessage ((message T_audio_data)\<lparr> m_audio := Some (chunk_data d) \<rparr>) s
      else s)"

definition stopPlayback :: "state \<Rightarrow> state" where
  "stopPlayback s =
     s\<lparr> audioPlayer := map_option (\<lambda>p. p\<lparr> paused := True, currentTime := 0 \<rparr>) (audioPlayer s),
        currentPlayingSegment := None \<rparr>"

text \<open>\<open>String.prototype.includes\<close>.\<close>

fun includes_str :: "string \<Rightarrow> string \<Rightarrow> bool" where
  "includes_str [] pat = (pat = [])"
| "includes_str (c # cs) pat = (prefix pat (c # cs) \<or> includes_str cs pat)"

text \<open>
  What the watcher of \<open>lastMessage\<close> takes from the browser: the clock, what decoding the
  audio throws (if it throws) and the object URL of the new blob.
\<close>

record message_env =
  now :: int
  decode_throws :: "thrown option"
  objectURL :: string

text \<open>
  The \<open>audio_segment\<close> case. Of the \<open>audio\<close> element the model keeps what the code
  assigns: \<open>src\<close>, and \<open>paused\<close> through \<open>play\<close> and \<open>pause\<close>. A \<open>play\<close> promise that
  rejects is \<open>play_rejected\<close>, later.
\<close>

definition on_audio_segment :: "message_env \<Rightarrow> WebSocketMessage \<Rightarrow> state \<Rightarrow> state" where
  "on_audio_segment env msg s =
     (case audioPlayer s of
        None \<Rightarrow> s\<lparr> error := Some ''Missing audio data or player element'' \<rparr>
      | Some p \<Rightarrow>
          if \<not> truthy (m_audio msg)
          then s\<lparr> error := Some ''Missing audio data or player element'' \<rparr>
          else (case decode_throws env of
                  Some err \<Rightarrow>
                    stopPlayback
                      (s\<lparr> error := Some (error_message err ''Failed to process audio segment'') \<rparr>)
                | None \<Rightarrow>
                    s\<lparr> revoked := (if src p \<noteq> [] then revoked s @ [src p] else revoked s),
                       audioPlayer := Some (p\<lparr> src := objectURL env, paused := False \<rparr>) \<rparr>))"

definition play_rejected :: "thrown \<Rightarrow> state \<Rightarrow> state" where
  "play_rejected err s =
     stopPlayback (s\<lparr> error := Some (''Failed to play audio: '' @
        (case err of ErrorObject m \<Rightarrow> m | OtherValue str \<Rightarrow> str)) \<rparr>)"

text \<open>The \<open>transcription\<close> case: \<open>map\<close> creates one new object for every segment.\<close>

definition new_segments :: "nat \<Rightarrow> TranscriptionSegment list \<Rightarrow> segment_object list" where
  "new_segments n segs = map (\<lambda>(i, sg). \<lparr> oid = i, seg = sg \<rparr>) (enumerate n segs)"

definition on_transcription :: "message_env \<Rightarrow> WebSocketMessage \<Rightarrow> state \<Rightarrow> state" where
  "on_transcription env msg s =
     (case (m_text msg, m_session_id msg) of
        (Some (c # cs), Some (d # ds)) \<Rightarrow>
          (let segs = (case m_segments msg of Some l \<Rightarrow> l | None \<Rightarrow> [])
           in s\<lparr> transcriptions := transcriptions s @
                    [\<lparr> t_text = c # cs, timestamp = now env, duration = 0,
                       segments = new_segments (next_oid s) segs, session_id = d # ds \<rparr>],
                  next_oid := next_oid s + length segs \<rparr>)
      | _ \<Rightarrow> s)"

definition on_error :: "WebSocketMessage \<Rightarrow> state \<Rightarrow> state" where
  "on_error msg s =
     (let s1 = s\<lparr> error := (if truthy (m_error msg) then m_error msg
                              else Some ''Unknown error occurred'') \<rparr>
      in case m_error msg of
           Some e \<Rightarrow> if includes_str e ''No active recording session''
                     then s1\<lparr> isRecordingSessionActive := False \<rparr> else s1
         | None \<Rightarrow> s1)"

definition on_status :: "WebSocketMessage \<Rightarrow> state \<Rightarrow> state" where
  "on_status msg s =
     (if m_status msg = Some ''recording_started'' then s\<lparr> isRecordingSessionActive := True \<rparr>
      else if m_status msg = Some ''recording_stopped''
      then s\<lparr> isRecordingSessionActive := False \<rparr>
      else s)"

text \<open>The watcher of \<open>lastMessage\<close>: the \<open>switch\<close> on the type of the message.\<close>

definition lastMessage_watcher :: "message_env \<Rightarrow> WebSocketMessage option \<Rightarrow> state \<Rightarrow> state" where
  "lastMessage_watcher env m s =
     (case m of
        None \<Rightarrow> s
      | Some msg \<Rightarrow>
          (case m_type msg of
             T_transcription \<Rightarrow> on_transcription env msg s
           | T_audio_segment \<Rightarrow> on_audio_segment env msg s
           | T_error \<Rightarrow> on_error msg s
           | T_status \<Rightarrow> on_status msg s
           | _ \<Rightarrow> s))"

text \<open>An inbound message: \<open>ws.onmessage\<close> stores it, then the watcher runs on it.\<close>

definition receive :: "message_env \<Rightarrow> WebSocketMessage \<Rightarrow> state \<Rightarrow> state" where
  "receive env msg s = lastMessage_watcher env (Some msg) (ws_onmessage (Some msg) s)"

text \<open>
  \<open>playSegment\<close>. \<open>===\<close> on two objects compares their identity. \<open>sendMessage\<close> throws
  nothing, so the \<open>catch\<close> clause has no case here.
\<close>

definition isPlayingSegment :: "segment_object \<Rightarrow> state \<Rightarrow> bool" where
  "isPlayingSegment segment s =
     (case currentPlayingSegment s of None \<Rightarrow> False | Some cur \<Rightarrow> oid cur = oid segment)"

definition play_audio :: "string \<Rightarrow> segment_object \<Rightarrow> WebSocketMessage" where
  "play_audio sessionId segment =
     (message T_play_audio)\<lparr> m_session_id := Some sessionId,
        m_start_time := Some (absolute_start (seg segment)),
        m_end_time := Some (absolute_end (seg segment)) \<rparr>"

definition playSegment :: "string \<Rightarrow> segment_object \<Rightarrow> state \<Rightarrow> state" where
  "playSegment sessionId segment s =
     (if isPlayingSegment segment s then stopPlayback s
      else sendMessage (play_audio sessionId segment)
             (s\<lparr> currentPlayingSegment := Some segment \<rparr>))"

definition onPlaybackEnded :: "state \<Rightarrow> state" where
  "onPlaybackEnded s = s\<lparr> currentPlayingSegment := None \<rparr>"

section \<open>The event loop\<close>

text \<open>
  The handlers run one at a time, each to its end. A message whose text does not parse
  is \<open>WsMessage env None\<close>. \<open>ErrorsChanged\<close> is the watcher of the two error refs; the
  model lets it run at any time, Vue runs it after one of them has changed.
\<close>

datatype event =
  ToggleRecording connect_outcome arm_outcome
| AudioProcess "real list"
| WsMessage message_env "WebSocketMessage option"
| WsClose
| WsError
| PlaySegment string segment_object
| StopPlayback
| PlaybackEnded
| PlayRejected thrown
| ErrorsChanged

fun step :: "event \<Rightarrow> state \<Rightarrow> state" where
  "step (ToggleRecording c a) s = toggleRecording c a s"
| "step (AudioProcess inputData) s = onaudioprocess audioDataCallback inputData s"
| "step (WsMessage env (Some msg)) s = receive env msg s"
| "step (WsMessage env None) s = ws_onmessage None s"
| "step WsClose s = ws_onclose s"
| "step WsError s = ws_onerror s"
| "step (PlaySegment sessionId segment) s = playSegment sessionId segment s"
| "step StopPlayback s = stopPlayback s"
| "step PlaybackEnded s = onPlaybackEnded s"
| "step (PlayRejected err) s = play_rejected err s"
| "step ErrorsChanged s = errors_watcher s"

definition run :: "event list \<Rightarrow> state \<Rightarrow> state" where
  "run evs s = foldl (\<lambda>s' e. step e s') s evs"

section \<open>Concrete states and inputs\<close>

text \<open>
  The mounted component after one start sequence in which the socket opened and the
  device was granted, and inputs for the handlers.
\<close>

definition recording_state :: state where
  "recording_state = toggleRecording ConnectOpens ArmSucceeds (mounted setup_state)"

definition chunk0 :: audio_chunk where
  "chunk0 = \<lparr> chunk_type = ''chunk'', chunk_data = ''AAA='', sampleRate = 48000 \<rparr>"

definition env0 :: message_env where
  "env0 = \<lparr> now = 0, decode_throws = None, objectURL = ''blob:1'' \<rparr>"

definition status_message :: "string \<Rightarrow> WebSocketMessage" where
  "status_message st = (message T_status)\<lparr> m_status := Some st \<rparr>"

definition error_message_of :: "string \<Rightarrow> WebSocketMessage" where
  "error_message_of e = (message T_error)\<lparr> m_error := Some e \<rparr>"

definition segment0 :: segment_object where
  "segment0 = \<lparr> oid = 0, seg = \<lparr> seg_text = ''hello'', speaker = ''SPEAKER_1'',
     seg_start = 0, seg_end = 1, absolute_start = 0, absolute_end = 1 \<rparr> \<rparr>"

definition segment0_copy :: segment_object where
  "segment0_copy = segment0\<lparr> oid := 1 \<rparr>"

definition transcription_message :: WebSocketMessage where
  "transcription_message = (message T_transcription)\<lparr> m_text := Some ''hello'',
     m_session_id := Some ''s1'', m_segments := Some [seg segment0] \<rparr>"

definition playing_state :: state where
  "playing_state = playSegment ''s1'' segment0 recording_state"

definition loud_window :: "real list" where
  "loud_window = replicate BUFFER_SIZE 1"



text \<open>
  A window with a subnormal sample, and seven times it: every product is a single.
\<close>

definition window_b :: "real list" where
  "window_b = [14, 21 / 2 ^ 149]"

definition window_7b :: "real list" where
  "window_7b = [98, 147 / 2 ^ 149]"

section \<open>Facts about the concrete states\<close>

lemmas start_defs = recording_state_def toggleRecording_def startWebSocketRecording_def
  sendMessage_def mounted_def setup_state_def cleanup_def message_def

lemma recording_state_flags:
  "isRecording recording_state \<and> isConnected recording_state
   \<and> isRecordingSessionActive recording_state \<and> ws recording_state = Some OPEN"
  by (simp add: start_defs)

lemma playing_state_target:
  "currentPlayingSegment playing_state = Some segment0 \<and> ws playing_state = Some OPEN"
  by (simp add: playing_state_def playSegment_def isPlayingSegment_def start_defs)

section \<open>The noise gate\<close>

lemma one_hundredth_below_MIN_AMPLITUDE: "1 / 100 < MIN_AMPLITUDE"
  by (simp add: MIN_AMPLITUDE_def)

text \<open>
  C6. A window whose largest absolute sample is below 0.01 leaves the whole state as it
  was, whatever the callback is: the callback is not run (no frame is emitted), and the
  accumulation buffer and its position are untouched.
\<close>

theorem silent_window_dropped:
  "maxAmplitude inputData < 1 / 100 \<Longrightarrow> onaudioprocess cb inputData s = s"
  using one_hundredth_below_MIN_AMPLITUDE
  by (simp add: onaudioprocess_def split: option.split)

theorem silent_window_dropped_witness:
  "maxAmplitude [1 / 200, - 1 / 300, 0] < 1 / 100
   \<and> onaudioprocess audioDataCallback [1 / 200, - 1 / 300, 0] recording_state = recording_state"
proof -
  have quiet: "maxAmplitude [1 / 200, - 1 / 300, 0] < 1 / 100"
    by (simp add: maxAmplitude_def)
  from quiet silent_window_dropped [OF quiet] show ?thesis by simp
qed

section \<open>Floating-point rounding\<close>

text \<open>
  The binade of a number is the one exponent \<open>b\<close> with \<open>2 powi b \<le> \<bar>x\<bar> < 2 powi (b + 1)\<close>;
  the second lemma computes it. Away from the subnormal range, rounding commutes with a
  multiplication by a power of two.
\<close>

lemma binade_eq:
  assumes "2 powi b \<le> \<bar>x\<bar>" and "\<bar>x\<bar> < 2 powi (b + 1)"
  shows "binade x = b"
proof -
  have pos: "0 < \<bar>x\<bar>"
    using assms(1) by (smt (verit) zero_less_power_int)
  have "(2 :: real) powr (of_int b) = 2 powi b"
    and "(2 :: real) powr (of_int b + 1) = 2 powi (b + 1)"
    using powr_real_of_int' [of 2 b] powr_real_of_int' [of 2 "b + 1"] by simp_all
  then have "\<lfloor>log 2 \<bar>x\<bar>\<rfloor> = b"
    using assms pos floor_log_eq_powr_iff [of "\<bar>x\<bar>" 2 b] by simp
  then show ?thesis using pos by (simp add: binade_def)
qed

lemma binade_code [code]:
  "binade x = (if x = 0 then 0 else if 2 \<le> \<bar>x\<bar> then binade (x / 2) + 1
               else if \<bar>x\<bar> < 1 then binade (x * 2) - 1 else 0)"
proof -
  have big: "binade x = binade (x / 2) + 1" if "2 \<le> \<bar>x\<bar>"
  proof -
    have nz: "x \<noteq> 0" using that by auto
    then have "log 2 \<bar>x / 2\<bar> = log 2 \<bar>x\<bar> - 1"
      by (simp add: log_divide)
    then show ?thesis using nz by (simp add: binade_def)
  qed
  have small: "binade x = binade (x * 2) - 1" if "x \<noteq> 0"
  proof -
    have "log 2 \<bar>x * 2\<bar> = log 2 \<bar>x\<bar> + 1"
      using that by (simp add: log_mult abs_mult)
    then show ?thesis using that by (auto simp add: binade_def)
  qed
  have mid: "binade x = 0" if "1 \<le> \<bar>x\<bar>" and "\<bar>x\<bar> < 2"
    using that binade_eq [of 0 x] by simp
  show ?thesis using big small mid by (auto simp add: binade_def not_le not_less)
qed






lemma float64_one: "float64 1 = 1"
  by code_simp

text \<open>Rounding a number whose binade and nearest multiple are given.\<close>

lemma ieee_round_eval:
  assumes "2 powi b \<le> \<bar>x\<bar>" and "\<bar>x\<bar> < 2 powi (b + 1)"
    and "e = max (b - int p + 1) emin"
    and "round_half_even (x / 2 powi e) = n"
  shows "ieee_round p emin x = of_int n * 2 powi e"
proof -
  have "x \<noteq> 0"
    using assms(1) by (smt (verit) zero_less_power_int abs_zero)
  then show ?thesis
    using binade_eq [OF assms(1,2)] assms(3,4) by (simp add: ieee_round_def)
qed

lemma round_half_even_eval:
  "of_int n - 1 / 2 < x \<Longrightarrow> x < of_int n + 1 / 2 \<Longrightarrow> round_half_even x = n"
  "x = of_int n + 1 / 2 \<Longrightarrow> even n \<Longrightarrow> round_half_even x = n"
  "x = of_int n - 1 / 2 \<Longrightarrow> even n \<Longrightarrow> round_half_even x = n"
proof -
  show "round_half_even x = n" if "of_int n - 1 / 2 < x" and "x < of_int n + 1 / 2"
  proof (cases "of_int n \<le> x")
    case True
    then have "\<lfloor>x\<rfloor> = n" using that by (simp add: floor_eq_iff)
    then show ?thesis using that by (simp add: round_half_even_def)
  next
    case False
    then have "\<lfloor>x\<rfloor> = n - 1" using that by (simp add: floor_eq_iff)
    then show ?thesis using that False by (simp add: round_half_even_def)
  qed
  show "round_half_even x = n" if "x = of_int n + 1 / 2" and "even n"
  proof -
    have "\<lfloor>x\<rfloor> = n" using that by (simp add: floor_eq_iff)
    then show ?thesis using that by (simp add: round_half_even_def)
  qed
  show "round_half_even x = n" if "x = of_int n - 1 / 2" and "even n"
  proof -
    have "\<lfloor>x\<rfloor> = n - 1" using that by (simp add: floor_eq_iff)
    then show ?thesis using that by (simp add: round_half_even_def)
  qed
qed

section \<open>Peak normalisation\<close>







text \<open>The buffer after a window of two samples, fed to an empty buffer.\<close>

lemma two_sample_window:
  assumes "audioBuffer s = Some buf" and "onAudioData s" and "bufferPosition s = 0"
    and "2 \<le> length buf"
    and "MIN_AMPLITUDE < maxAmplitude [x, y]"
  shows "map_option (take 2) (audioBuffer (onaudioprocess cb [x, y] s))
     = Some [float32 (float64 (x * float64 (1 / maxAmplitude [x, y]))),
             float32 (float64 (y * float64 (1 / maxAmplitude [x, y])))]"
proof -
  have pos: "0 < maxAmplitude [x, y]"
    using assms(5) one_hundredth_below_MIN_AMPLITUDE by simp
  have short: "\<not> BUFFER_SIZE \<le> 2"
    by (simp add: BUFFER_SIZE_def)
  obtain u v rest where buf: "buf = u # v # rest"
    using assms(4) by (cases buf; cases "tl buf") auto
  show ?thesis
    using assms(2,5) pos short
    by (simp add: onaudioprocess_def assms(1,3) store_normalized_def Let_def buf
        numeral_2_eq_2)
qed






lemma recip14: "float64 (1 / 14) = 2573485501354569 / 2 ^ 55"
  by code_simp

lemma recip98: "float64 (1 / 98) = 5882252574524729 / 2 ^ 59"
  by code_simp

lemma prod_b: "float64 (21 / 2 ^ 149 * (2573485501354569 / 2 ^ 55)) = 3 / 2 ^ 150"
proof -
  have "ieee_round 53 (- 1074) (21 / 2 ^ 149 * (2573485501354569 / 2 ^ 55))
      = of_int 6755399441055744 * 2 powi (- 201)"
    by (rule ieee_round_eval [where b = "- 149"])
      (simp_all add: power_int_minus round_half_even_eval(1))
  then show ?thesis by (simp add: float64_def power_int_minus)
qed


lemma store_b: "float32 (3 / 2 ^ 150) = 1 / 2 ^ 148"
proof -
  have "ieee_round 24 (- 149) (3 / 2 ^ 150) = of_int 2 * 2 powi (- 149)"
    by (rule ieee_round_eval [where b = "- 149"])
      (simp_all add: power_int_minus round_half_even_eval(3))
  then show ?thesis by (simp add: float32_def power_int_minus)
qed

lemma prod_7b:
  "float64 (147 / 2 ^ 149 * (5882252574524729 / 2 ^ 59)) = 6755399441055743 / 2 ^ 201"
proof -
  have "ieee_round 53 (- 1074) (147 / 2 ^ 149 * (5882252574524729 / 2 ^ 59))
      = of_int 6755399441055743 * 2 powi (- 201)"
    by (rule ieee_round_eval [where b = "- 149"])
      (simp_all add: power_int_minus round_half_even_eval(1))
  then show ?thesis by (simp add: float64_def power_int_minus)
qed

lemma store_7b: "float32 (6755399441055743 / 2 ^ 201) = 1 / 2 ^ 149"
proof -
  have "ieee_round 24 (- 149) (6755399441055743 / 2 ^ 201) = of_int 1 * 2 powi (- 149)"
    by (rule ieee_round_eval [where b = "- 149"])
      (simp_all add: power_int_minus round_half_even_eval(1))
  then show ?thesis by (simp add: float32_def power_int_minus)
qed

lemma window_b_peaks: "float32 (float64 (14 * (2573485501354569 / 2 ^ 55))) = 1"
  "float32 (float64 (98 * (5882252574524729 / 2 ^ 59))) = 1"
  by code_simp+

text \<open>
  The difference does not come from rounding the scaled samples alone. Every sample of
  \<open>window_7b\<close> is exactly seven times the sample of \<open>window_b\<close>, and the normalised
  samples the two leave in the buffer differ.
\<close>

lemma exact_scaling_by_seven_changes_buffer:
  "window_7b = map ((*) 7) window_b
   \<and> map_option (take 2)
         (audioBuffer (onaudioprocess audioDataCallback window_b recording_state))
       = Some [1, 1 / 2 ^ 148]
   \<and> map_option (take 2)
         (audioBuffer (onaudioprocess audioDataCallback window_7b recording_state))
       = Some [1, 1 / 2 ^ 149]"
proof -
  have products: "window_7b = map ((*) 7) window_b"
    by (simp add: window_b_def window_7b_def)
  have peak_b: "maxAmplitude [14, 21 / 2 ^ 149] = 14"
    and peak_7b: "maxAmplitude [98, 147 / 2 ^ 149] = 98"
    by (simp_all add: maxAmplitude_def)
  have gate_b: "MIN_AMPLITUDE < maxAmplitude [14, 21 / 2 ^ 149]"
    and gate_7b: "MIN_AMPLITUDE < maxAmplitude [98, 147 / 2 ^ 149]"
    by (simp_all add: maxAmplitude_def MIN_AMPLITUDE_def)
  have buffer: "audioBuffer recording_state = Some (replicate BUFFER_SIZE 0)"
    and position: "bufferPosition recording_state = 0"
    and callback: "onAudioData recording_state"
    by (simp_all add: start_defs)
  have room: "2 \<le> length (replicate BUFFER_SIZE (0 :: real))"
    by (simp add: BUFFER_SIZE_def)
  have b: "map_option (take 2)
         (audioBuffer (onaudioprocess audioDataCallback window_b recording_state))
       = Some [1, 1 / 2 ^ 148]"
    using two_sample_window [OF buffer callback position room gate_b, of audioDataCallback]
    by (simp only: window_b_def peak_b recip14 window_b_peaks prod_b store_b)
  have b7: "map_option (take 2)
         (audioBuffer (onaudioprocess audioDataCallback window_7b recording_state))
       = Some [1, 1 / 2 ^ 149]"
    using two_sample_window [OF buffer callback position room gate_7b, of audioDataCallback]
    by (simp only: window_7b_def peak_7b recip98 window_b_peaks prod_7b store_7b)
  from products b b7 show ?thesis by (simp only: simp_thms)
qed

section \<open>The transmit gate\<close>

lemma onaudioprocess_sent:
  "sent (onaudioprocess audioDataCallback w s) \<noteq> sent s
   \<Longrightarrow> isConnected s \<and> isRecording s \<and> isRecordingSessionActive s"
  by (auto simp add: onaudioprocess_def audioDataCallback_def sendMessage_def Let_def
      split: option.splits prod.splits if_splits)

lemma foldl_max_replicate:
  "\<bar>x\<bar> \<le> a \<Longrightarrow> foldl (\<lambda>m y. max m \<bar>y\<bar>) a (replicate n (x :: real)) = a"
  by (induction n) simp_all

lemma maxAmplitude_replicate: "0 < n \<Longrightarrow> maxAmplitude (replicate n x) = \<bar>x\<bar>"
  by (cases n) (simp_all add: maxAmplitude_def foldl_max_replicate)

lemma store_normalized_position:
  "snd (store_normalized scale w (buf, pos)) = pos + length w"
  unfolding store_normalized_def
  by (induction w arbitrary: buf pos) simp_all

text \<open>A window of 8192 samples at full scale fills the frame, and the frame is sent.\<close>

lemma loud_window_transmitted:
  "sent (step (AudioProcess loud_window) recording_state)
     = sent recording_state @ [(message T_audio_data)\<lparr> m_audio := Some (encode_chunk
         (fst (store_normalized 1 loud_window (replicate BUFFER_SIZE 0, 0)))) \<rparr>]"
proof -
  have m: "maxAmplitude loud_window = 1"
    by (simp add: loud_window_def maxAmplitude_replicate BUFFER_SIZE_def)
  have g: "MIN_AMPLITUDE < 1"
    by (simp add: MIN_AMPLITUDE_def)
  obtain buf' pos'
    where st: "store_normalized 1 loud_window (replicate BUFFER_SIZE 0, 0) = (buf', pos')"
    by (cases "store_normalized 1 loud_window (replicate BUFFER_SIZE 0, 0)")
  have "pos' = BUFFER_SIZE"
    using store_normalized_position [of 1 loud_window "replicate BUFFER_SIZE 0" 0] st
    by (simp add: loud_window_def)
  moreover have "audioBuffer recording_state = Some (replicate BUFFER_SIZE 0)"
    and "bufferPosition recording_state = 0" and "onAudioData recording_state"
    by (simp_all add: start_defs)
  ultimately show ?thesis
    using m g st recording_state_flags
    by (simp add: onaudioprocess_def audioDataCallback_def sendMessage_def float64_one)
qed

text \<open>
  C1. The callback the capture pipeline runs on a full frame leaves the whole state as it
  was (nothing sent, no error slot written) as soon as the connection flag, the
  microphone flag or the session flag is false. Whenever it hands something to the
  socket, the three flags are true and what it hands over is one \<open>audio_data\<close> message
  carrying the frame. A capture window changes what was sent only in a state in which
  the three flags are true.
\<close>

theorem audio_frame_gate:
  "(\<not> isConnected s \<or> \<not> isRecording s \<or> \<not> isRecordingSessionActive s
      \<longrightarrow> audioDataCallback d s = s)
   \<and> (sent (audioDataCallback d s) \<noteq> sent s
      \<longrightarrow> isConnected s \<and> isRecording s \<and> isRecordingSessionActive s
          \<and> sent (audioDataCallback d s)
              = sent s @ [(message T_audio_data)\<lparr> m_audio := Some (chunk_data d) \<rparr>])
   \<and> (sent (step (AudioProcess inputData) s) \<noteq> sent s
      \<longrightarrow> isConnected s \<and> isRecording s \<and> isRecordingSessionActive s)"
proof -
  have "sent (step (AudioProcess inputData) s) \<noteq> sent s
      \<longrightarrow> isConnected s \<and> isRecording s \<and> isRecordingSessionActive s"
    using onaudioprocess_sent [of inputData s] by simp
  then show ?thesis
    by (auto simp add: audioDataCallback_def sendMessage_def)
qed

theorem audio_frame_gate_witness:
  "\<not> isConnected (mounted setup_state)
   \<and> audioDataCallback chunk0 (mounted setup_state) = mounted setup_state
   \<and> sent (audioDataCallback chunk0 recording_state) \<noteq> sent recording_state
   \<and> sent (step (AudioProcess loud_window) recording_state) \<noteq> sent recording_state
   \<and> isConnected recording_state \<and> isRecording recording_state
   \<and> isRecordingSessionActive recording_state
   \<and> sent (audioDataCallback chunk0 recording_state)
       = sent recording_state @ [(message T_audio_data)\<lparr> m_audio := Some ''AAA='' \<rparr>]"
proof -
  have closed: "\<not> isConnected (mounted setup_state)"
    by (simp add: mounted_def setup_state_def)
  have frame: "sent (audioDataCallback chunk0 recording_state) \<noteq> sent recording_state"
    using recording_state_flags by (simp add: audioDataCallback_def sendMessage_def chunk0_def)
  have window: "sent (step (AudioProcess loud_window) recording_state) \<noteq> sent recording_state"
    by (simp only: loud_window_transmitted) simp
  from audio_frame_gate [of recording_state chunk0 loud_window]
    audio_frame_gate [of "mounted setup_state" chunk0 loud_window] closed frame window
  show ?thesis by (simp add: chunk0_def)
qed

section \<open>The recording session flag\<close>

lemma toggle_failed_inactive: "\<not> isRecordingSessionActive (toggle_failed err s)"
  by (simp add: toggle_failed_def)

lemma startAudioRecording_armed:
  "startAudioRecording a s = Inr s' \<Longrightarrow> a = ArmSucceeds \<and> isRecording s'"
  by (cases a) auto

lemma toggle_activates:
  "\<not> isRecordingSessionActive s \<Longrightarrow> isRecordingSessionActive (toggleRecording c a s)
   \<Longrightarrow> a = ArmSucceeds \<and> \<not> isRecording s \<and> isRecording (toggleRecording c a s)"
  by (auto simp add: toggleRecording_def toggle_failed_inactive
      split: if_splits sum.splits dest: startAudioRecording_armed)

lemma sendMessage_active:
  "isRecordingSessionActive (sendMessage m s) = isRecordingSessionActive s"
  by (simp add: sendMessage_def)

lemma stopPlayback_active:
  "isRecordingSessionActive (stopPlayback s) = isRecordingSessionActive s"
  by (simp add: stopPlayback_def)

lemma audioDataCallback_active:
  "isRecordingSessionActive (audioDataCallback d s) = isRecordingSessionActive s"
  by (simp add: audioDataCallback_def sendMessage_active)

lemma onaudioprocess_active:
  "isRecordingSessionActive (onaudioprocess audioDataCallback w s) = isRecordingSessionActive s"
  by (simp add: onaudioprocess_def Let_def audioDataCallback_active
      split: option.split prod.split)

lemma receive_activates:
  "\<not> isRecordingSessionActive s \<Longrightarrow> isRecordingSessionActive (receive env msg s)
   \<Longrightarrow> m_type msg = T_status \<and> m_status msg = Some ''recording_started''"
  by (auto simp add: receive_def lastMessage_watcher_def ws_onmessage_def on_status_def
      on_error_def on_transcription_def on_audio_segment_def Let_def stopPlayback_active
      split: message_type.splits option.splits if_splits list.splits)

text \<open>
  C2, as the code has it. The flag is false after \<open>setup\<close> and after the stop branch of
  \<open>toggleRecording\<close>. A handler turns it from false to true only in two cases: a start
  sequence whose arm succeeded, or an inbound \<open>status\<close> message saying
  \<open>recording_started\<close>. The close of the channel clears the connection flag and leaves
  the session flag as it was.
\<close>

theorem session_flag_lifecycle:
  "\<not> isRecordingSessionActive setup_state
   \<and> (isRecording s \<longrightarrow> \<not> isRecordingSessionActive (toggleRecording c a s))
   \<and> (\<not> isRecordingSessionActive s \<and> isRecordingSessionActive (step e s) \<longrightarrow>
        (\<exists>c'. e = ToggleRecording c' ArmSucceeds \<and> \<not> isRecording s \<and> isRecording (step e s))
        \<or> (\<exists>env msg. e = WsMessage env (Some msg) \<and> m_type msg = T_status
              \<and> m_status msg = Some ''recording_started''))
   \<and> isRecordingSessionActive (ws_onclose s) = isRecordingSessionActive s
   \<and> \<not> isConnected (ws_onclose s)"
proof -
  have a: "\<not> isRecordingSessionActive setup_state"
    by (simp add: setup_state_def)
  have b: "isRecording s \<longrightarrow> \<not> isRecordingSessionActive (toggleRecording c a s)"
    by (simp add: toggleRecording_def)
  have c: "\<not> isRecordingSessionActive s \<and> isRecordingSessionActive (step e s) \<longrightarrow>
        (\<exists>c'. e = ToggleRecording c' ArmSucceeds \<and> \<not> isRecording s \<and> isRecording (step e s))
        \<or> (\<exists>env msg. e = WsMessage env (Some msg) \<and> m_type msg = T_status
              \<and> m_status msg = Some ''recording_started'')"
  proof (cases e)
    case (ToggleRecording c' a')
    then show ?thesis using toggle_activates [of s c' a'] by auto
  next
    case (AudioProcess w)
    then show ?thesis by (simp add: onaudioprocess_active)
  next
    case (WsMessage env m)
    then show ?thesis
      using receive_activates [of s env] by (cases m) (auto simp add: ws_onmessage_def)
  qed (simp_all add: ws_onclose_def ws_onerror_def playSegment_def onPlaybackEnded_def
        play_rejected_def errors_watcher_def stopPlayback_active sendMessage_active)
  have d: "isRecordingSessionActive (ws_onclose s) = isRecordingSessionActive s
     \<and> \<not> isConnected (ws_onclose s)"
    by (simp add: ws_onclose_def)
  from a b c d show ?thesis by blast
qed

theorem session_flag_lifecycle_witness:
  "isRecording recording_state
   \<and> \<not> isRecordingSessionActive (toggleRecording ConnectOpens ArmSucceeds recording_state)
   \<and> \<not> isRecordingSessionActive (mounted setup_state)
   \<and> isRecordingSessionActive (step (ToggleRecording ConnectOpens ArmSucceeds) (mounted setup_state))
   \<and> isRecording (step (ToggleRecording ConnectOpens ArmSucceeds) (mounted setup_state))"
  using session_flag_lifecycle
      [of recording_state ConnectOpens ArmSucceeds "ToggleRecording ConnectOpens ArmSucceeds"]
    session_flag_lifecycle
      [of "mounted setup_state" ConnectOpens ArmSucceeds "ToggleRecording ConnectOpens ArmSucceeds"]
    recording_state_flags
  by (simp add: start_defs)

text \<open>
  Against C2 as stated: after a start sequence and the close of the channel the session
  flag is true while the connection flag is false; and after a start sequence whose arm
  failed, a \<open>recording_started\<close> status sets the flag with the microphone not armed.
\<close>

theorem session_active_while_disconnected:
  "isRecordingSessionActive
     (run [ToggleRecording ConnectOpens ArmSucceeds, WsClose] (mounted setup_state))
   \<and> \<not> isConnected
     (run [ToggleRecording ConnectOpens ArmSucceeds, WsClose] (mounted setup_state))
   \<and> isRecordingSessionActive
     (run [ToggleRecording ConnectOpens (ArmThrows (ErrorObject ''Permission denied'')),
           WsMessage env0 (Some (status_message ''recording_started''))] (mounted setup_state))
   \<and> \<not> isRecording
     (run [ToggleRecording ConnectOpens (ArmThrows (ErrorObject ''Permission denied'')),
           WsMessage env0 (Some (status_message ''recording_started''))] (mounted setup_state))"
  by (simp add: run_def start_defs ws_onclose_def toggle_failed_def stopWebSocketRecording_def
      stopAudioRecording_def receive_def lastMessage_watcher_def on_status_def
      ws_onmessage_def status_message_def)

text \<open>
  C3, as the code has it. An inbound \<open>status\<close> message saying \<open>recording_stopped\<close>
  clears the session flag and changes nothing else: the capture pipeline is not
  disarmed. The microphone flag, the processor, the stream, the context and the buffer
  are as they were, and nothing is sent.
\<close>

theorem recording_stopped_clears_flag_only:
  "m_type msg = T_status \<Longrightarrow> m_status msg = Some ''recording_stopped'' \<Longrightarrow>
     lastMessage_watcher env (Some msg) s = s\<lparr> isRecordingSessionActive := False \<rparr>
   \<and> receive env msg s = s\<lparr> lastMessage := Some msg, isRecordingSessionActive := False \<rparr>
   \<and> \<not> isRecordingSessionActive (receive env msg s)
   \<and> isRecording (receive env msg s) = isRecording s
   \<and> processor (receive env msg s) = processor s
   \<and> audioStream (receive env msg s) = audioStream s
   \<and> audioContext (receive env msg s) = audioContext s
   \<and> audioBuffer (receive env msg s) = audioBuffer s
   \<and> sent (receive env msg s) = sent s"
  by (simp add: receive_def lastMessage_watcher_def on_status_def ws_onmessage_def)

theorem recording_stopped_witness:
  "m_type (status_message ''recording_stopped'') = T_status
   \<and> m_status (status_message ''recording_stopped'') = Some ''recording_stopped''
   \<and> \<not> isRecordingSessionActive
        (receive env0 (status_message ''recording_stopped'') recording_state)
   \<and> isRecording (receive env0 (status_message ''recording_stopped'') recording_state)
       = isRecording recording_state"
  using recording_stopped_clears_flag_only
      [of "status_message ''recording_stopped''" env0 recording_state]
  by (simp add: status_message_def message_def)

text \<open>
  Against C3 as stated: in the recording state, where the session is active and the
  microphone armed, the message leaves the microphone armed and its resources held.
\<close>

theorem recording_stopped_leaves_capture_armed:
  "isRecordingSessionActive recording_state \<and> isRecording recording_state
   \<and> isRecording (receive env0 (status_message ''recording_stopped'') recording_state)
   \<and> processor (receive env0 (status_message ''recording_stopped'') recording_state)
   \<and> audioStream (receive env0 (status_message ''recording_stopped'') recording_state)
   \<and> audioContext (receive env0 (status_message ''recording_stopped'') recording_state)
       = Some 48000"
  by (simp add: start_defs receive_def lastMessage_watcher_def on_status_def
      ws_onmessage_def status_message_def)

text \<open>
  C4, as the code has it. With the microphone armed, \<open>toggleRecording\<close> disarms the
  capture pipeline and clears the session flag. When the connection flag is true and the
  socket open it sends one message, of type \<open>status\<close> with the status
  \<open>stop_recording\<close>; otherwise it sends nothing.
\<close>

theorem local_stop:
  "isRecording s \<Longrightarrow>
     toggleRecording c a s
       = (stopWebSocketRecording (cleanup s))\<lparr> isRecordingSessionActive := False \<rparr>
   \<and> \<not> isRecording (toggleRecording c a s) \<and> \<not> processor (toggleRecording c a s)
   \<and> \<not> audioStream (toggleRecording c a s) \<and> audioContext (toggleRecording c a s) = None
   \<and> audioBuffer (toggleRecording c a s) = None
   \<and> \<not> isRecordingSessionActive (toggleRecording c a s)
   \<and> sent (toggleRecording c a s)
       = (if isConnected s \<and> ws s = Some OPEN
          then sent s @ [(message T_status)\<lparr> m_status := Some ''stop_recording'' \<rparr>]
          else sent s)"
  by (simp add: toggleRecording_def stopAudioRecording_def stopWebSocketRecording_def
      sendMessage_def cleanup_def)

theorem local_stop_witness:
  "isRecording recording_state
   \<and> \<not> isRecording (toggleRecording ConnectOpens ArmSucceeds recording_state)
   \<and> sent (toggleRecording ConnectOpens ArmSucceeds recording_state)
       = sent recording_state @ [(message T_status)\<lparr> m_status := Some ''stop_recording'' \<rparr>]"
proof -
  have armed: "isRecording recording_state"
    using recording_state_flags by simp
  from local_stop [OF armed, of ConnectOpens ArmSucceeds]
  have "\<not> isRecording (toggleRecording ConnectOpens ArmSucceeds recording_state)"
    and "sent (toggleRecording ConnectOpens ArmSucceeds recording_state)
       = (if isConnected recording_state \<and> ws recording_state = Some OPEN
          then sent recording_state
                 @ [(message T_status)\<lparr> m_status := Some ''stop_recording'' \<rparr>]
          else sent recording_state)"
    by blast+
  then show ?thesis using recording_state_flags by simp
qed

text \<open>
  Against C4 as stated: the stop request in the recording state sends a message of type
  \<open>status\<close>, and no message of type \<open>stop_recording\<close> is among those sent.
\<close>

theorem local_stop_sends_status_message:
  "isRecording recording_state
   \<and> sent (toggleRecording ConnectOpens ArmSucceeds recording_state)
       = sent recording_state @ [(message T_status)\<lparr> m_status := Some ''stop_recording'' \<rparr>]
   \<and> m_type ((message T_status)\<lparr> m_status := Some ''stop_recording'' \<rparr>) = T_status
   \<and> \<not> list_ex (\<lambda>m. m_type m = T_stop_recording)
         (sent (toggleRecording ConnectOpens ArmSucceeds recording_state))"
  by (simp add: start_defs stopAudioRecording_def stopWebSocketRecording_def)

text \<open>
  C5. On an inbound \<open>error\<close> message the error slot takes the text of the message (the
  text \<open>Unknown error occurred\<close> when the message has none or an empty one). When the
  text contains \<open>No active recording session\<close> the session flag is false afterwards,
  whatever it was; when it does not, the error slot is all that changes.
\<close>

theorem inbound_error:
  "m_type msg = T_error \<Longrightarrow>
     error (lastMessage_watcher env (Some msg) s)
       = (if truthy (m_error msg) then m_error msg else Some ''Unknown error occurred'')
   \<and> ((\<exists>e. m_error msg = Some e \<and> includes_str e ''No active recording session'')
        \<longrightarrow> \<not> isRecordingSessionActive (lastMessage_watcher env (Some msg) s))
   \<and> (\<not> (\<exists>e. m_error msg = Some e \<and> includes_str e ''No active recording session'')
        \<longrightarrow> lastMessage_watcher env (Some msg) s
            = s\<lparr> error := (if truthy (m_error msg) then m_error msg
                             else Some ''Unknown error occurred'') \<rparr>)"
  by (auto simp add: lastMessage_watcher_def on_error_def Let_def split: option.splits)

theorem inbound_error_witness:
  "m_type (error_message_of ''Error: No active recording session found'') = T_error
   \<and> m_type (error_message_of ''Model failed'') = T_error
   \<and> isRecordingSessionActive recording_state
   \<and> error (lastMessage_watcher env0
        (Some (error_message_of ''Error: No active recording session found'')) recording_state)
       = Some ''Error: No active recording session found''
   \<and> \<not> isRecordingSessionActive (lastMessage_watcher env0
        (Some (error_message_of ''Error: No active recording session found'')) recording_state)
   \<and> lastMessage_watcher env0 (Some (error_message_of ''Model failed'')) recording_state
       = recording_state\<lparr> error := Some ''Model failed'' \<rparr>"
proof -
  have t1: "m_type (error_message_of e) = T_error"
    and e1: "m_error (error_message_of e) = Some e" for e
    by (simp_all add: error_message_of_def message_def)
  have yes: "includes_str ''Error: No active recording session found''
      ''No active recording session''"
    by simp
  have no: "\<not> includes_str ''Model failed'' ''No active recording session''"
    by simp
  from inbound_error
      [of "error_message_of ''Error: No active recording session found''" env0 recording_state]
    inbound_error [of "error_message_of ''Model failed''" env0 recording_state]
    yes no recording_state_flags
  show ?thesis by (simp add: t1 e1 truthy_def)
qed

section \<open>The transcript\<close>

lemma map_seg_new_segments: "map seg (new_segments n segs) = segs"
  by (induction segs arbitrary: n) (simp_all add: new_segments_def)

lemma new_segments_Nil: "new_segments n [] = []"
  by (simp add: new_segments_def)

text \<open>
  C9. A \<open>transcription\<close> message with a non-empty text and a non-empty session id
  appends one group to \<open>transcriptions\<close>: it carries that session id and that text, and
  its segments are those of the message, none when the message has no list. The error
  slot is as it was. A message whose text or session id is absent or empty leaves the
  whole state as it was.
\<close>

theorem transcription_appended_or_dropped:
  "m_type msg = T_transcription \<Longrightarrow>
     (\<forall>txt sid. m_text msg = Some txt \<and> txt \<noteq> [] \<and> m_session_id msg = Some sid \<and> sid \<noteq> [] \<longrightarrow>
        (\<exists>g. transcriptions (lastMessage_watcher env (Some msg) s) = transcriptions s @ [g]
           \<and> session_id g = sid \<and> t_text g = txt
           \<and> map seg (segments g) = (case m_segments msg of Some l \<Rightarrow> l | None \<Rightarrow> []))
        \<and> error (lastMessage_watcher env (Some msg) s) = error s)
   \<and> (\<not> truthy (m_text msg) \<or> \<not> truthy (m_session_id msg) \<longrightarrow>
        lastMessage_watcher env (Some msg) s = s)"
  by (auto simp add: lastMessage_watcher_def on_transcription_def truthy_def Let_def
      map_seg_new_segments new_segments_Nil split: option.splits list.splits)

theorem transcription_witness:
  "m_type transcription_message = T_transcription
   \<and> (\<exists>g. transcriptions (lastMessage_watcher env0 (Some transcription_message) recording_state)
          = transcriptions recording_state @ [g]
        \<and> session_id g = ''s1'' \<and> t_text g = ''hello'' \<and> map seg (segments g) = [seg segment0])
   \<and> transcriptions (lastMessage_watcher env0 (Some transcription_message) recording_state)
       = [\<lparr> t_text = ''hello'', timestamp = 0, duration = 0, segments = [segment0],
            session_id = ''s1'' \<rparr>]
   \<and> lastMessage_watcher env0 (Some (transcription_message\<lparr> m_session_id := None \<rparr>))
        recording_state = recording_state"
proof -
  have kept: "\<exists>g. transcriptions
          (lastMessage_watcher env0 (Some transcription_message) recording_state)
          = transcriptions recording_state @ [g]
        \<and> session_id g = ''s1'' \<and> t_text g = ''hello'' \<and> map seg (segments g) = [seg segment0]"
    using transcription_appended_or_dropped [of transcription_message env0 recording_state]
    by (simp add: transcription_message_def message_def)
  have "\<not> truthy (m_session_id (transcription_message\<lparr> m_session_id := None \<rparr>))"
    by (simp add: truthy_def)
  with transcription_appended_or_dropped
    [of "transcription_message\<lparr> m_session_id := None \<rparr>" env0 recording_state]
  have dropped: "lastMessage_watcher env0
      (Some (transcription_message\<lparr> m_session_id := None \<rparr>)) recording_state = recording_state"
    by (simp add: transcription_message_def message_def)
  have "transcriptions recording_state = []" and "next_oid recording_state = 0"
    by (simp_all add: start_defs)
  then have "transcriptions (lastMessage_watcher env0 (Some transcription_message) recording_state)
       = [\<lparr> t_text = ''hello'', timestamp = 0, duration = 0, segments = [segment0],
            session_id = ''s1'' \<rparr>]"
    by (simp add: lastMessage_watcher_def on_transcription_def transcription_message_def
        message_def env0_def new_segments_def segment0_def)
  with kept dropped show ?thesis
    by (simp add: transcription_message_def message_def)
qed

section \<open>Playback\<close>

text \<open>
  C8, as the code has it. When the segment is not the active target, two requests in a
  row for it end with playback stopped: the second call is \<open>stopPlayback\<close>, so the player
  (if there is one) is paused at position 0, the target is cleared, and what was sent
  after the first call is all that was sent.
\<close>

theorem second_request_cancels:
  "\<not> isPlayingSegment segment s \<Longrightarrow>
     playSegment sessionId segment (playSegment sessionId segment s)
       = stopPlayback (playSegment sessionId segment s)
   \<and> currentPlayingSegment (playSegment sessionId segment (playSegment sessionId segment s))
       = None
   \<and> audioPlayer (playSegment sessionId segment (playSegment sessionId segment s))
       = map_option (\<lambda>p. p\<lparr> paused := True, currentTime := 0 \<rparr>) (audioPlayer s)
   \<and> sent (playSegment sessionId segment (playSegment sessionId segment s))
       = sent (playSegment sessionId segment s)"
  by (simp add: playSegment_def isPlayingSegment_def stopPlayback_def sendMessage_def)

theorem second_request_cancels_witness:
  "\<not> isPlayingSegment segment0 recording_state
   \<and> currentPlayingSegment
        (playSegment ''s1'' segment0 (playSegment ''s1'' segment0 recording_state)) = None
   \<and> sent (playSegment ''s1'' segment0 (playSegment ''s1'' segment0 recording_state))
       = sent (playSegment ''s1'' segment0 recording_state)"
proof -
  have idle: "\<not> isPlayingSegment segment0 recording_state"
    by (simp add: isPlayingSegment_def start_defs)
  from second_request_cancels [OF idle, of "''s1''"] idle show ?thesis by blast
qed

text \<open>
  Against C8 as stated (every playback state): in the state in which the segment is
  already the active target, the first of two requests cancels and the second starts
  again, setting the target and sending a new \<open>play_audio\<close> message.
\<close>

theorem second_request_restarts:
  "isPlayingSegment segment0 playing_state
   \<and> currentPlayingSegment
        (playSegment ''s1'' segment0 (playSegment ''s1'' segment0 playing_state))
       = Some segment0
   \<and> sent (playSegment ''s1'' segment0 (playSegment ''s1'' segment0 playing_state))
       = sent playing_state @ [play_audio ''s1'' segment0]"
  by (simp add: playing_state_def playSegment_def isPlayingSegment_def stopPlayback_def
      start_defs)

text \<open>
  C10. The test for the active target compares identities. A segment object other than
  the active target, with the same fields as it, is not taken for the target:
  \<open>playSegment\<close> does not stop playback (the player is untouched), it makes the copy
  the target and calls \<open>sendMessage\<close> with a message of type \<open>play_audio\<close> that carries
  the session id and the absolute time range of the segment, which an open socket sends.
\<close>

theorem equal_copy_is_not_the_target:
  "currentPlayingSegment s = Some cur \<Longrightarrow> oid copy \<noteq> oid cur \<Longrightarrow> seg copy = seg cur \<Longrightarrow>
     \<not> isPlayingSegment copy s
   \<and> playSegment sessionId copy s
       = sendMessage
           \<lparr> m_type = T_play_audio, m_text = None, m_timestamp = None, m_duration = None,
             m_segments = None, m_session_id = Some sessionId, m_audio = None,
             m_start_time = Some (absolute_start (seg copy)),
             m_end_time = Some (absolute_end (seg copy)), m_error = None, m_status = None \<rparr>
           (s\<lparr> currentPlayingSegment := Some copy \<rparr>)
   \<and> currentPlayingSegment (playSegment sessionId copy s) = Some copy
   \<and> audioPlayer (playSegment sessionId copy s) = audioPlayer s
   \<and> (ws s = Some OPEN \<longrightarrow>
        sent (playSegment sessionId copy s)
          = sent s @
            [\<lparr> m_type = T_play_audio, m_text = None, m_timestamp = None, m_duration = None,
               m_segments = None, m_session_id = Some sessionId, m_audio = None,
               m_start_time = Some (absolute_start (seg copy)),
               m_end_time = Some (absolute_end (seg copy)), m_error = None,
               m_status = None \<rparr>])"
  by (simp add: playSegment_def isPlayingSegment_def sendMessage_def play_audio_def message_def)

theorem equal_copy_witness:
  "currentPlayingSegment playing_state = Some segment0
   \<and> oid segment0_copy \<noteq> oid segment0 \<and> seg segment0_copy = seg segment0
   \<and> ws playing_state = Some OPEN
   \<and> currentPlayingSegment (playSegment ''s1'' segment0_copy playing_state)
       = Some segment0_copy
   \<and> sent (playSegment ''s1'' segment0_copy playing_state)
       = sent playing_state @
         [\<lparr> m_type = T_play_audio, m_text = None, m_timestamp = None, m_duration = None,
            m_segments = None, m_session_id = Some ''s1'', m_audio = None,
            m_start_time = Some 0, m_end_time = Some 1, m_error = None, m_status = None \<rparr>]"
proof -
  have cur: "currentPlayingSegment playing_state = Some segment0"
    and sock: "ws playing_state = Some OPEN"
    using playing_state_target by simp_all
  have other: "oid segment0_copy \<noteq> oid segment0"
    and same: "seg segment0_copy = seg segment0"
    by (simp_all add: segment0_copy_def segment0_def)
  have range: "absolute_start (seg segment0_copy) = 0" "absolute_end (seg segment0_copy) = 1"
    "absolute_start (seg segment0) = 0" "absolute_end (seg segment0) = 1"
    by (simp_all add: segment0_copy_def segment0_def)
  from equal_copy_is_not_the_target [OF cur other same, of "''s1''"]
  have "currentPlayingSegment (playSegment ''s1'' segment0_copy playing_state)
       = Some segment0_copy"
    and "ws playing_state = Some OPEN \<longrightarrow>
        sent (playSegment ''s1'' segment0_copy playing_state)
          = sent playing_state @
            [\<lparr> m_type = T_play_audio, m_text = None, m_timestamp = None, m_duration = None,
               m_segments = None, m_session_id = Some ''s1'', m_audio = None,
               m_start_time = Some (absolute_start (seg segment0_copy)),
               m_end_time = Some (absolute_end (seg segment0_copy)), m_error = None,
               m_status = None \<rparr>]"
    by blast+
  then show ?thesis using cur sock other same by (simp add: range)
qed

end
